theory Spec2Isabelle
  imports Main
begin

section \<open>Text and characters\<close>

text \<open>
  A Python \<open>str\<close> is a sequence of Unicode code points. The bilingual variant's allow-list
  names the range U+0980..U+09FF, which does not fit in an 8-bit \<open>char\<close>, so a character is
  its code point and a string is a list of code points. \<open>ustr\<close> embeds an ASCII literal.
\<close>

type_synonym uchar = nat
type_synonym ustring = "uchar list"

definition ustr :: "string \<Rightarrow> ustring" where
  "ustr s = map of_char s"

definition in_range :: "uchar \<Rightarrow> uchar \<Rightarrow> uchar \<Rightarrow> bool" where
  "in_range lo hi c \<longleftrightarrow> lo \<le> c \<and> c \<le> hi"

definition SP :: uchar where
  "SP = 32"

text \<open>
  The class \<open>\s\<close> of a \<open>str\<close> pattern and the characters removed by \<open>str.strip()\<close> are
  the same set, the code points for which CPython's \<open>Py_UNICODE_ISSPACE\<close> holds:
  U+0009..U+000D, U+001C..U+001F, U+0020, U+0085, U+00A0, U+1680, U+2000..U+200A, U+2028,
  U+2029, U+202F, U+205F and U+3000.
\<close>

definition is_space :: "uchar \<Rightarrow> bool" where
  "is_space c \<longleftrightarrow>
     in_range 9 13 c \<or> in_range 28 31 c \<or> c = 32 \<or> c = 133 \<or> c = 160 \<or> c = 5760 \<or>
     in_range 8192 8202 c \<or> c = 8232 \<or> c = 8233 \<or> c = 8239 \<or> c = 8287 \<or> c = 12288"

definition is_upper :: "uchar \<Rightarrow> bool" where
  "is_upper c \<longleftrightarrow> in_range 65 90 c"

definition is_lower :: "uchar \<Rightarrow> bool" where
  "is_lower c \<longleftrightarrow> in_range 97 122 c"

definition is_digit :: "uchar \<Rightarrow> bool" where
  "is_digit c \<longleftrightarrow> in_range 48 57 c"

text \<open>\<open>str.strip()\<close>: whitespace removed at both ends.\<close>

definition lstrip :: "ustring \<Rightarrow> ustring" where
  "lstrip s = dropWhile is_space s"

definition rstrip :: "ustring \<Rightarrow> ustring" where
  "rstrip s = rev (dropWhile is_space (rev s))"

definition strip :: "ustring \<Rightarrow> ustring" where
  "strip s = rstrip (lstrip s)"

section \<open>The text normalizer\<close>

text \<open>
  \<open>re.sub(r"[^...]", " ", text)\<close> with a negated one-character class replaces each character
  outside the class by a space, one for one. \<open>re.sub(r"\s+", " ", text)\<close> replaces every
  maximal run of whitespace by one space: the scan goes left to right and \<open>+\<close> is greedy.
\<close>

definition sub_not_in :: "(uchar \<Rightarrow> bool) \<Rightarrow> ustring \<Rightarrow> ustring" where
  "sub_not_in cls s = map (\<lambda>c. if cls c then c else SP) s"

function sub_ws_runs :: "ustring \<Rightarrow> ustring" where
  "sub_ws_runs [] = []"
| "sub_ws_runs (c # cs) =
     (if is_space c then SP # sub_ws_runs (dropWhile is_space cs) else c # sub_ws_runs cs)"
  by pat_completeness auto
termination
  by (relation "measure length") (auto simp: less_Suc_eq_le length_dropWhile_le)

text \<open>
  The explicit members of the two classes. Base variant (\<open>src/flask_api/main.py\<close>):
  \<open>[^A-Za-z0-9\s\.\,\-\(\)\/@:+]\<close>. Bilingual variant (\<open>src/main.py\<close>):
  \<open>[^\u0980-\u09FFa-zA-Z0-9\s\.\,\-\(\)\/@:+<>]\<close>.
\<close>

definition keep_en :: "uchar \<Rightarrow> bool" where
  "keep_en c \<longleftrightarrow> is_upper c \<or> is_lower c \<or> is_digit c \<or> c \<in> set (ustr ''.,-()/@:+'')"

definition keep_bn :: "uchar \<Rightarrow> bool" where
  "keep_bn c \<longleftrightarrow> in_range 2432 2559 c \<or> is_lower c \<or> is_upper c \<or> is_digit c \<or>
     c \<in> set (ustr ''.,-()/@:+<>'')"

definition class_en :: "uchar \<Rightarrow> bool" where
  "class_en c \<longleftrightarrow> keep_en c \<or> is_space c"

definition class_bn :: "uchar \<Rightarrow> bool" where
  "class_bn c \<longleftrightarrow> keep_bn c \<or> is_space c"

text \<open>
  The argument of \<open>clean_text_regex\<close> is a \<open>str\<close> or \<open>None\<close>. The base variant tests
  \<open>if not text\<close> first, which holds for \<open>None\<close> and for the empty string. The bilingual
  variant has no such test: \<open>re.sub\<close> raises \<open>TypeError\<close> on \<open>None\<close>.

  The exceptions of the model: the \<open>TypeError\<close> of \<open>re.sub\<close>, what an OCR engine raises
  (with its message), the \<open>FileNotFoundError\<close> of a path that does not exist (with the
  path), and any other refusal of the operating system (with its message).
\<close>

datatype exn = TypeError | EngineError ustring | FileNotFoundError ustring | OSError ustring

definition clean_str :: "(uchar \<Rightarrow> bool) \<Rightarrow> ustring \<Rightarrow> ustring" where
  "clean_str cls s = strip (sub_ws_runs (sub_not_in cls s))"

definition clean_text_regex :: "ustring option \<Rightarrow> exn + ustring" where
  "clean_text_regex text =
     (case text of
        None \<Rightarrow> Inr []
      | Some s \<Rightarrow> if s = [] then Inr [] else Inr (clean_str class_en s))"

definition clean_text_regex_bn :: "ustring option \<Rightarrow> exn + ustring" where
  "clean_text_regex_bn text =
     (case text of
        None \<Rightarrow> Inl TypeError
      | Some s \<Rightarrow> Inr (clean_str class_bn s))"

text \<open>
  The shape of a normalized text: no two adjacent whitespace characters, and no whitespace
  at either end.
\<close>

fun no_ws_run :: "ustring \<Rightarrow> bool" where
  "no_ws_run [] = True"
| "no_ws_run [c] = True"
| "no_ws_run (c # d # cs) = (\<not> (is_space c \<and> is_space d) \<and> no_ws_run (d # cs))"

definition trimmed :: "ustring \<Rightarrow> bool" where
  "trimmed s = (case s of [] \<Rightarrow> True | c # cs \<Rightarrow> \<not> is_space c \<and> \<not> is_space (last s))"

section \<open>Regular expressions\<close>

text \<open>
  The patterns of the extractors are built from literals, repeated character classes,
  sequence and alternation. Python's \<open>re\<close> is a backtracking matcher: alternatives are
  tried left to right, the repetitions \<open>+\<close>, \<open>?\<close> and \<open>{m,n}\<close> are greedy, and the first
  way that completes the whole pattern wins. \<open>matches r s\<close> lists the remainders of \<open>s\<close>
  after each way \<open>r\<close> can match a prefix of \<open>s\<close>, in the order in which the matcher tries
  them, so its head is the match that \<open>re\<close> reports at that position.

  \<open>Rep cls m n\<close> is the class \<open>cls\<close> repeated at least \<open>m\<close> and at most \<open>n\<close> times
  (\<open>None\<close>: unbounded): longer repetitions come first.
\<close>

datatype rx =
    Lit ustring
  | Rep "uchar \<Rightarrow> bool" nat "nat option"
  | Seq rx rx
  | Alt rx rx

fun rep_rests :: "(uchar \<Rightarrow> bool) \<Rightarrow> nat \<Rightarrow> nat option \<Rightarrow> ustring \<Rightarrow> ustring list" where
  "rep_rests cls m n [] = (if m = 0 then [[]] else [])"
| "rep_rests cls m n (c # cs) =
     (if cls c \<and> n \<noteq> Some 0 then rep_rests cls (m - 1) (map_option (\<lambda>k. k - 1) n) cs else []) @
     (if m = 0 then [c # cs] else [])"

fun matches :: "rx \<Rightarrow> ustring \<Rightarrow> ustring list" where
  "matches (Lit l) s = (if take (length l) s = l then [drop (length l) s] else [])"
| "matches (Rep cls m n) s = rep_rests cls m n s"
| "matches (Seq a b) s = concat (map (matches b) (matches a s))"
| "matches (Alt a b) s = matches a s @ matches b s"

text \<open>
  \<open>re.findall(pattern, text)\<close> for a pattern without capturing groups: the scan starts at the
  left; where the pattern matches, the matched text is reported and the scan goes on behind
  it; where it does not, the scan moves one character on. None of the patterns below can
  match the empty string (each ends in a repetition of at least one character); the branch
  for an empty match reports it and moves one character on.
\<close>

function findall :: "rx \<Rightarrow> ustring \<Rightarrow> ustring list" where
  "findall r [] = (case matches r [] of [] \<Rightarrow> [] | rest # _ \<Rightarrow> [[]])"
| "findall r (c # cs) =
     (case matches r (c # cs) of
        [] \<Rightarrow> findall r cs
      | rest # _ \<Rightarrow>
          if length rest < Suc (length cs)
          then take (Suc (length cs) - length rest) (c # cs) # findall r rest
          else [] # findall r cs)"
  by pat_completeness auto
termination
  by (relation "measure (\<lambda>(r, s). length s)") auto

text \<open>\<open>re.split\<close> on a one-character class: the text is cut at every character of the class.\<close>

fun re_split :: "(uchar \<Rightarrow> bool) \<Rightarrow> ustring \<Rightarrow> ustring list" where
  "re_split cls [] = [[]]"
| "re_split cls (c # cs) =
     (if cls c then [] # re_split cls cs
      else (case re_split cls cs of [] \<Rightarrow> [[c]] | x # xs \<Rightarrow> (c # x) # xs))"

section \<open>The entity extractors (base variant)\<close>

text \<open>
  The extractors only ever receive \<open>combined_text\<close>, an output of the base variant's
  \<open>clean_text_regex\<close>, whose characters are ASCII. On such text \<open>\d\<close> is the class
  \<open>0-9\<close> and \<open>str.lower()\<close> maps \<open>A-Z\<close> to \<open>a-z\<close> and nothing else; the Unicode decimal
  digits and case mappings beyond ASCII are not modelled.

  \<open>list(set(...))\<close> is a list without duplicates in an order that Python does not fix; it
  is modelled by the set of its elements.
\<close>

definition is_alpha :: "uchar \<Rightarrow> bool" where
  "is_alpha c \<longleftrightarrow> is_lower c \<or> is_upper c"

definition email_local :: "uchar \<Rightarrow> bool" where
  "email_local c \<longleftrightarrow> is_alpha c \<or> is_digit c \<or> c \<in> set (ustr ''._%+-'')"

definition email_domain :: "uchar \<Rightarrow> bool" where
  "email_domain c \<longleftrightarrow> is_alpha c \<or> is_digit c \<or> c \<in> set (ustr ''.-'')"

text \<open>\<open>[a-zA-Z0-9._%+-]+@[a-zA-Z0-9.-]+\.[a-zA-Z]{2,}\<close>\<close>

definition email_rx :: rx where
  "email_rx =
     Seq (Rep email_local 1 None)
    (Seq (Lit (ustr ''@''))
    (Seq (Rep email_domain 1 None)
    (Seq (Lit (ustr ''.''))
         (Rep is_alpha 2 None))))"

definition extract_emails :: "ustring \<Rightarrow> ustring set" where
  "extract_emails text = set (findall email_rx text)"

text \<open>\<open>(?:\+880|\+88|01|\+?\d{1,3})[\s\-]?\d{8,11}\<close>\<close>

definition phone_rx :: rx where
  "phone_rx =
     Seq (Alt (Lit (ustr ''+880''))
         (Alt (Lit (ustr ''+88''))
         (Alt (Lit (ustr ''01''))
              (Seq (Rep (\<lambda>c. c = of_char CHR ''+'') 0 (Some 1)) (Rep is_digit 1 (Some 3))))))
    (Seq (Rep (\<lambda>c. is_space c \<or> c = of_char CHR ''-'') 0 (Some 1))
         (Rep is_digit 8 (Some 11)))"

definition extract_phones :: "ustring \<Rightarrow> ustring set" where
  "extract_phones text = set (findall phone_rx text)"

definition lower :: "ustring \<Rightarrow> ustring" where
  "lower s = map (\<lambda>c. if is_upper c then c + 32 else c) s"

text \<open>\<open>k in s\<close> for strings: \<open>k\<close> occurs in \<open>s\<close> as a contiguous piece.\<close>

fun str_in :: "ustring \<Rightarrow> ustring \<Rightarrow> bool" where
  "str_in k [] = (k = [])"
| "str_in k (c # cs) = (take (length k) (c # cs) = k \<or> str_in k cs)"

definition address_keywords :: "ustring list" where
  "address_keywords = map ustr
     [''road'', ''rd'', ''street'', ''st'', ''avenue'', ''ave'',
      ''house'', ''floor'', ''level'', ''block'', ''sector'',
      ''dhaka'', ''bangladesh'', ''city'', ''tower'', ''building'']"

text \<open>
  The inner loop over the keywords appends the stripped line once, at the first keyword
  that passes the test, and breaks: the line is taken iff some keyword passes.
\<close>

definition is_address :: "ustring \<Rightarrow> bool" where
  "is_address line \<longleftrightarrow>
     list_ex (\<lambda>key. str_in (lower key) (lower line) \<and> length line > 10) address_keywords"

definition extract_addresses :: "ustring \<Rightarrow> ustring set" where
  "extract_addresses text =
     set (map strip (filter is_address
       (re_split (\<lambda>c. c = of_char CHR '','' \<or> c = of_char CHR ''.'') text)))"

text \<open>\<open>\d+\<close>\<close>

definition extract_numbers :: "ustring \<Rightarrow> ustring set" where
  "extract_numbers text = set (findall (Rep is_digit 1 None) text)"

section \<open>Requests, engines and the file system\<close>

text \<open>
  A request to \<open>/process\<close> carries an optional form field \<open>text\<close> and an optional file part
  \<open>image\<close>. A werkzeug \<open>FileStorage\<close> is true iff its file name is not empty, so a file
  part with an empty name counts as no image.
\<close>

type_synonym bytes = "nat list"

record upload =
  filename :: ustring
  content :: bytes

record request =
  form_text :: "ustring option"
  files_image :: "upload option"

definition has_image :: "request \<Rightarrow> bool" where
  "has_image req = (case files_image req of None \<Rightarrow> False | Some f \<Rightarrow> filename f \<noteq> [])"

text \<open>
  The state a request can change: the files on disk, and (for the claims about which
  engines run) the log of the engine invocations made so far.
\<close>

datatype engine = EasyOCR | Tesseract | PaddleOCR

record world =
  disk :: "ustring \<rightharpoonup> bytes"
  invoked :: "engine list"

text \<open>
  The OCR engines are opaque: each reads the file at a path and returns its detections or
  raises. An EasyOCR detection is a triple of box, text and confidence; a PaddleOCR result
  is a list of blocks of lines, each line a box with a pair of text and confidence.
  \<open>cv2.imread\<close> returns \<open>None\<close> for a file it cannot decode. Boxes, confidences and
  decoded images are never inspected by the program.

  Two more things are decided outside the program and are parameters as well. Whether
  \<open>os.makedirs\<close> and the \<open>open\<close> inside \<open>image_file.save\<close> succeed is the operating
  system's answer for the path (a missing directory part, as for the name \<open>a/b.png\<close>, a
  directory of that name, no permission): \<open>None\<close> when they succeed, the exception
  otherwise. \<open>str_of\<close> is Python's \<open>str(e)\<close> of an exception, which the library that
  raises it determines.
\<close>

type_synonym easy_det = "nat list \<times> ustring \<times> nat"
type_synonym paddle_line = "nat list \<times> (ustring \<times> nat)"

record ocr_env =
  easy_readtext :: "bytes option \<Rightarrow> exn + easy_det list"
  cv2_imread :: "bytes option \<Rightarrow> exn + bytes option"
  image_to_string :: "bytes option \<Rightarrow> exn + ustring"
  paddle_ocr :: "bytes option \<Rightarrow> exn + paddle_line list list"
  makedirs_error :: "ustring \<Rightarrow> exn option"
  save_error :: "ustring \<Rightarrow> exn option"
  str_of :: "exn \<Rightarrow> ustring"

definition NL :: uchar where
  "NL = 10"

fun join :: "ustring \<Rightarrow> ustring list \<Rightarrow> ustring" where
  "join sep [] = []"
| "join sep [x] = x"
| "join sep (x # y # ys) = x @ sep @ join sep (y # ys)"

definition log_call :: "engine \<Rightarrow> world \<Rightarrow> world" where
  "log_call e w = w\<lparr>invoked := invoked w @ [e]\<rparr>"

section \<open>The engine adapters\<close>

text \<open>
  \<open>tesseract_body\<close> is the two statements that \<open>ocr_with_tesseract\<close> has in both variants:
  \<open>cv2.imread\<close>, then \<open>pytesseract.image_to_string\<close>; either may raise. \<open>paddle_body\<close> is
  the body of \<open>ocr_with_paddle\<close>: \<open>paddle_ocr.ocr\<close>, then the text of every line of every
  block, joined by newlines.

  Base variant: the bodies of \<open>ocr_with_tesseract\<close> and \<open>ocr_with_paddle\<close> stand in a
  \<open>try\<close> whose bare \<open>except\<close> returns the empty string. EasyOCR has no adapter function:
  \<open>easy_reader.readtext\<close> is called inline in the request handler.
\<close>

definition tesseract_body :: "ocr_env \<Rightarrow> bytes option \<Rightarrow> exn + ustring" where
  "tesseract_body env file =
     (case cv2_imread env file of Inl e \<Rightarrow> Inl e | Inr img \<Rightarrow> image_to_string env img)"

text \<open>\<open>try: return ... except: return ""\<close>: whatever is raised becomes the empty string.\<close>

definition caught :: "exn + ustring \<Rightarrow> ustring" where
  "caught r = (case r of Inl e \<Rightarrow> [] | Inr s \<Rightarrow> s)"

definition paddle_body :: "ocr_env \<Rightarrow> bytes option \<Rightarrow> exn + ustring" where
  "paddle_body env file =
     (case paddle_ocr env file of
        Inl e \<Rightarrow> Inl e
      | Inr result \<Rightarrow> Inr (join [NL] (map (\<lambda>line. fst (snd line)) (concat result))))"

definition ocr_with_tesseract :: "ocr_env \<Rightarrow> ustring \<Rightarrow> world \<Rightarrow> ustring \<times> world" where
  "ocr_with_tesseract env image_path w =
     (caught (tesseract_body env (disk w image_path)), log_call Tesseract w)"

definition ocr_with_paddle :: "ocr_env \<Rightarrow> ustring \<Rightarrow> world \<Rightarrow> ustring \<times> world" where
  "ocr_with_paddle env image_path w =
     (caught (paddle_body env (disk w image_path)), log_call PaddleOCR w)"

text \<open>Bilingual variant: \<open>ocr_with_tesseract\<close> has no \<open>try\<close>; what the engine raises goes on.\<close>

definition ocr_with_tesseract_bn ::
  "ocr_env \<Rightarrow> ustring \<Rightarrow> world \<Rightarrow> (exn + ustring) \<times> world" where
  "ocr_with_tesseract_bn env image_path w =
     (tesseract_body env (disk w image_path), log_call Tesseract w)"

text \<open>The inline EasyOCR call of both variants: \<open>"\n".join([t[1] for t in readtext(path)])\<close>.\<close>

definition easy_raw_text :: "ocr_env \<Rightarrow> ustring \<Rightarrow> world \<Rightarrow> (exn + ustring) \<times> world" where
  "easy_raw_text env image_path w =
     (case easy_readtext env (disk w image_path) of
        Inl e \<Rightarrow> Inl e
      | Inr dets \<Rightarrow> Inr (join [NL] (map (\<lambda>t. fst (snd t)) dets)),
      log_call EasyOCR w)"

section \<open>The request handlers\<close>

record engine_result =
  raw :: ustring
  cleaned :: ustring

record extracted =
  emails :: "ustring set"
  phones :: "ustring set"
  addresses :: "ustring set"
  numbers :: "ustring set"

datatype body =
    Error ustring
  | Result "string \<rightharpoonup> engine_result" ustring extracted
  | Result_bn "string \<rightharpoonup> engine_result" ustring

record response =
  status :: nat
  body :: body

text \<open>
  \<open>os.path.join('uploads', name)\<close> on POSIX: an absolute \<open>name\<close> replaces the directory.
  \<open>os.makedirs\<close> creates the directory or raises. \<open>image_file.save\<close> writes the upload to
  the path or raises, leaving the disk as it was. \<open>os.remove\<close> deletes the file at the
  path, raising \<open>FileNotFoundError\<close> when there is none. The disk is a flat map from paths
  to contents.
\<close>

definition path_join :: "ustring \<Rightarrow> ustring \<Rightarrow> ustring" where
  "path_join dir name =
     (if name \<noteq> [] \<and> hd name = of_char CHR ''/'' then name else dir @ ustr ''/'' @ name)"

definition os_makedirs :: "ocr_env \<Rightarrow> ustring \<Rightarrow> exn + unit" where
  "os_makedirs env name = (case makedirs_error env name of Some e \<Rightarrow> Inl e | None \<Rightarrow> Inr ())"

definition save :: "ocr_env \<Rightarrow> upload \<Rightarrow> ustring \<Rightarrow> world \<Rightarrow> (exn + unit) \<times> world" where
  "save env f path w =
     (case save_error env path of
        Some e \<Rightarrow> (Inl e, w)
      | None \<Rightarrow> (Inr (), w\<lparr>disk := (disk w)(path \<mapsto> content f)\<rparr>))"

definition os_remove :: "ustring \<Rightarrow> world \<Rightarrow> (exn + unit) \<times> world" where
  "os_remove path w =
     (if path \<in> dom (disk w) then (Inr (), w\<lparr>disk := (disk w)(path := None)\<rparr>)
      else (Inl (FileNotFoundError path), w))"

definition endswith :: "ustring \<Rightarrow> ustring \<Rightarrow> bool" where
  "endswith s suffix \<longleftrightarrow>
     length suffix \<le> length s \<and> drop (length s - length suffix) s = suffix"

definition allowed_extension :: "ustring \<Rightarrow> bool" where
  "allowed_extension name \<longleftrightarrow>
     list_ex (endswith (lower name)) (map ustr [''.png'', ''.jpg'', ''.jpeg'', ''.bmp''])"

text \<open>
  The body of the \<open>try\<close> of \<open>process_visiting_card\<close> (lines 115 to 130): the three engines,
  the three cleanings, the result map, the joined text, then \<open>os.remove\<close>. The first
  exception ends it, with the state reached so far.
\<close>

definition ocr_block ::
  "ocr_env \<Rightarrow> ustring \<Rightarrow> world \<Rightarrow> (exn + (string \<rightharpoonup> engine_result) \<times> ustring) \<times> world" where
  "ocr_block env image_path w =
     (case easy_raw_text env image_path w of
        (Inl e, w1) \<Rightarrow> (Inl e, w1)
      | (Inr easy_raw, w1) \<Rightarrow>
     (case ocr_with_tesseract env image_path w1 of (tesseract_raw, w2) \<Rightarrow>
     (case ocr_with_paddle env image_path w2 of (paddle_raw, w3) \<Rightarrow>
     (case clean_text_regex (Some easy_raw) of Inl e \<Rightarrow> (Inl e, w3) | Inr easy_clean \<Rightarrow>
     (case clean_text_regex (Some tesseract_raw) of Inl e \<Rightarrow> (Inl e, w3) | Inr tesseract_clean \<Rightarrow>
     (case clean_text_regex (Some paddle_raw) of Inl e \<Rightarrow> (Inl e, w3) | Inr paddle_clean \<Rightarrow>
       let ocr_results =
             [''easyocr'' \<mapsto> \<lparr>raw = easy_raw, cleaned = easy_clean\<rparr>,
              ''tesseract'' \<mapsto> \<lparr>raw = tesseract_raw, cleaned = tesseract_clean\<rparr>,
              ''paddleocr'' \<mapsto> \<lparr>raw = paddle_raw, cleaned = paddle_clean\<rparr>];
           combined_text = easy_clean @ [SP] @ tesseract_clean @ [SP] @ paddle_clean
       in (case os_remove image_path w3 of
             (Inl e, w4) \<Rightarrow> (Inl e, w4)
           | (Inr _, w4) \<Rightarrow> (Inr (ocr_results, combined_text), w4))))))))"

text \<open>
  Lines 137 to 155: the supplied text is cleaned and appended, the whole is cleaned again
  and the four extractors run on it. This part stands outside the \<open>try\<close>.
\<close>

definition respond ::
  "(string \<rightharpoonup> engine_result) \<Rightarrow> ustring \<Rightarrow> ustring \<Rightarrow> exn + response" where
  "respond ocr_results combined_text text_input =
     (case (if text_input \<noteq> []
            then (case clean_text_regex (Some text_input) of
                    Inl e \<Rightarrow> Inl e
                  | Inr cleaned_text_input \<Rightarrow>
                      Inr (strip (combined_text @ [SP] @ cleaned_text_input)))
            else Inr combined_text) of
        Inl e \<Rightarrow> Inl e
      | Inr combined_text1 \<Rightarrow>
     (case clean_text_regex (Some combined_text1) of
        Inl e \<Rightarrow> Inl e
      | Inr combined_text2 \<Rightarrow>
          Inr \<lparr>status = 200,
               body = Result ocr_results combined_text2
                 \<lparr>emails = extract_emails combined_text2,
                  phones = extract_phones combined_text2,
                  addresses = extract_addresses combined_text2,
                  numbers = extract_numbers combined_text2\<rparr>\<rparr>))"

text \<open>
  \<open>process_visiting_card\<close>, the handler of \<open>POST /process\<close> in the base variant. \<open>Inl\<close> is an
  exception that leaves the handler, as one raised by \<open>os.makedirs\<close> or \<open>image_file.save\<close>
  does (lines 110 to 112 stand before the \<open>try\<close>); \<open>except Exception\<close> around the OCR
  block turns what is raised there into the response 500. Under \<open>has_image\<close> the file part is present, so the
  \<open>None\<close> branch of the case on it is never taken.
\<close>

definition process_visiting_card :: "ocr_env \<Rightarrow> request \<Rightarrow> world \<Rightarrow> (exn + response) \<times> world" where
  "process_visiting_card env req w =
     (let text_input = strip (case form_text req of None \<Rightarrow> [] | Some t \<Rightarrow> t) in
      if text_input = [] \<and> \<not> has_image req
      then (Inr \<lparr>status = 400,
                 body = Error (ustr ''No input provided. Submit an image or text.'')\<rparr>, w)
      else if has_image req
      then (case files_image req of
              None \<Rightarrow> (Inr \<lparr>status = 400, body = Error (ustr ''Invalid file type'')\<rparr>, w)
            | Some image_file \<Rightarrow>
                if \<not> allowed_extension (filename image_file)
                then (Inr \<lparr>status = 400, body = Error (ustr ''Invalid file type'')\<rparr>, w)
                else
                  (case os_makedirs env (ustr ''uploads'') of
                     Inl e \<Rightarrow> (Inl e, w)
                   | Inr _ \<Rightarrow>
                  let image_path = path_join (ustr ''uploads'') (filename image_file)
                  in (case save env image_file image_path w of
                        (Inl e, w1) \<Rightarrow> (Inl e, w1)
                      | (Inr _, w1) \<Rightarrow>
                     (case ocr_block env image_path w1 of
                        (Inl e, w2) \<Rightarrow>
                          (Inr \<lparr>status = 500,
                                body = Error (ustr ''OCR failed: '' @ str_of env e)\<rparr>, w2)
                      | (Inr (ocr_results, combined_text), w2) \<Rightarrow>
                          (respond ocr_results combined_text text_input, w2)))))
      else (respond Map.empty [] text_input, w))"

text \<open>
  \<open>process_document\<close>, the handler of \<open>POST /process\<close> in the bilingual variant: two engines,
  no \<open>try\<close>, no text field, no check of the file name.
\<close>

definition process_document :: "ocr_env \<Rightarrow> request \<Rightarrow> world \<Rightarrow> (exn + response) \<times> world" where
  "process_document env req w =
     (case files_image req of
        None \<Rightarrow> (Inr \<lparr>status = 400, body = Error (ustr ''Image is required'')\<rparr>, w)
      | Some image_file \<Rightarrow>
          if filename image_file = []
          then (Inr \<lparr>status = 400, body = Error (ustr ''Image is required'')\<rparr>, w)
          else
            (case os_makedirs env (ustr ''uploads'') of
               Inl e \<Rightarrow> (Inl e, w)
             | Inr _ \<Rightarrow>
            let image_path = path_join (ustr ''uploads'') (filename image_file)
            in (case save env image_file image_path w of
                  (Inl e, w1) \<Rightarrow> (Inl e, w1)
                | (Inr _, w1) \<Rightarrow>
               (case easy_raw_text env image_path w1 of
                  (Inl e, w2) \<Rightarrow> (Inl e, w2)
                | (Inr easy_raw, w2) \<Rightarrow>
               (case ocr_with_tesseract_bn env image_path w2 of
                  (Inl e, w3) \<Rightarrow> (Inl e, w3)
                | (Inr tess_raw, w3) \<Rightarrow>
               (case clean_text_regex_bn (Some easy_raw) of Inl e \<Rightarrow> (Inl e, w3) | Inr easy_clean \<Rightarrow>
               (case clean_text_regex_bn (Some tess_raw) of Inl e \<Rightarrow> (Inl e, w3) | Inr tess_clean \<Rightarrow>
               (case clean_text_regex_bn (Some (easy_clean @ [SP] @ tess_clean)) of
                  Inl e \<Rightarrow> (Inl e, w3)
                | Inr combined_text \<Rightarrow>
               (case os_remove image_path w3 of
                  (Inl e, w4) \<Rightarrow> (Inl e, w4)
                | (Inr _, w4) \<Rightarrow>
                    (Inr \<lparr>status = 200,
                          body = Result_bn
                            [''easyocr'' \<mapsto> \<lparr>raw = easy_raw, cleaned = easy_clean\<rparr>,
                             ''tesseract'' \<mapsto> \<lparr>raw = tess_raw, cleaned = tess_clean\<rparr>]
                            combined_text\<rparr>, w4))))))))))"

section \<open>Sample requests and engines\<close>

text \<open>
  Concrete inputs on which the handlers are evaluated below: an upload \<open>card.png\<close>, an
  empty disk, and environments in which the engines named fail on every image. The text of
  an engine's error is its message there (no other exception is raised in them, and
  \<open>message\<close> is left empty for those). The directory and the file can be written, except
  in \<open>no_subdirectory\<close>, where \<open>uploads/a/b.png\<close> cannot be created for lack of the
  directory \<open>uploads/a\<close>.
\<close>

definition message :: "exn \<Rightarrow> ustring" where
  "message e = (case e of EngineError m \<Rightarrow> m | OSError m \<Rightarrow> m | _ \<Rightarrow> [])"

definition card_png :: upload where
  "card_png = \<lparr>filename = ustr ''card.png'', content = [137, 80, 78, 71]\<rparr>"

definition image_request :: request where
  "image_request = \<lparr>form_text = None, files_image = Some card_png\<rparr>"

definition empty_request :: request where
  "empty_request = \<lparr>form_text = None, files_image = None\<rparr>"

definition empty_world :: world where
  "empty_world = \<lparr>disk = Map.empty, invoked = []\<rparr>"

definition easyocr_fails :: ocr_env where
  "easyocr_fails =
     \<lparr>easy_readtext = (\<lambda>_. Inl (EngineError (ustr ''cannot read image''))),
      cv2_imread = (\<lambda>b. Inr b),
      image_to_string = (\<lambda>_. Inr (ustr ''ACME Ltd'')),
      paddle_ocr = (\<lambda>_. Inr [[([], ustr ''ACME'', 1)]]),
      makedirs_error = (\<lambda>_. None), save_error = (\<lambda>_. None), str_of = message\<rparr>"

definition tesseract_paddle_fail :: ocr_env where
  "tesseract_paddle_fail =
     \<lparr>easy_readtext = (\<lambda>_. Inr [([], ustr ''ACME Ltd'', 1)]),
      cv2_imread = (\<lambda>b. Inr b),
      image_to_string = (\<lambda>_. Inl (EngineError (ustr ''tesseract is not installed''))),
      paddle_ocr = (\<lambda>_. Inl (EngineError (ustr ''paddle crashed''))),
      makedirs_error = (\<lambda>_. None), save_error = (\<lambda>_. None), str_of = message\<rparr>"

definition tesseract_fails :: ocr_env where
  "tesseract_fails =
     \<lparr>easy_readtext = (\<lambda>_. Inr [([], ustr ''ACME Ltd'', 1)]),
      cv2_imread = (\<lambda>b. Inr b),
      image_to_string = (\<lambda>_. Inl (EngineError (ustr ''tesseract is not installed''))),
      paddle_ocr = (\<lambda>_. Inr [[([], ustr ''Dhaka'', 1)], [([], ustr ''a@b.org'', 1)]]),
      makedirs_error = (\<lambda>_. None), save_error = (\<lambda>_. None), str_of = message\<rparr>"

definition no_subdirectory :: ocr_env where
  "no_subdirectory =
     tesseract_fails\<lparr>save_error :=
       (\<lambda>p. if p = ustr ''uploads/a/b.png'' then Some (FileNotFoundError p) else None)\<rparr>"

definition nested_request :: request where
  "nested_request =
     \<lparr>form_text = None,
      files_image = Some \<lparr>filename = ustr ''a/b.png'', content = [137, 80, 78, 71]\<rparr>\<rparr>"

section \<open>Properties of the text normalizer\<close>

lemma is_space_SP: "is_space SP"
  by (simp add: is_space_def SP_def)

lemma set_sub_not_in: "c \<in> set (sub_not_in cls s) \<Longrightarrow> cls c \<or> c = SP"
  by (auto simp: sub_not_in_def split: if_splits)

lemma sub_not_in_id: "list_all cls s \<Longrightarrow> sub_not_in cls s = s"
  by (induction s) (simp_all add: sub_not_in_def)

lemma set_sub_ws_runs: "c \<in> set (sub_ws_runs s) \<Longrightarrow> c \<in> set s \<or> c = SP"
proof (induction s rule: sub_ws_runs.induct)
  case 1
  then show ?case by simp
next
  case (2 d ds)
  show ?case
  proof (cases "is_space d")
    case True
    with 2 have "c = SP \<or> c \<in> set (dropWhile is_space ds)" by auto
    then show ?thesis using set_dropWhileD by fastforce
  next
    case False
    with 2 show ?thesis by auto
  qed
qed

lemma space_sub_ws_runs: "c \<in> set (sub_ws_runs s) \<Longrightarrow> is_space c \<Longrightarrow> c = SP"
proof (induction s rule: sub_ws_runs.induct)
  case 1
  then show ?case by simp
next
  case (2 d ds)
  then show ?case by (cases "is_space d") auto
qed

lemma no_ws_run_Cons:
  "no_ws_run (c # xs) \<longleftrightarrow> (case xs of [] \<Rightarrow> True | d # _ \<Rightarrow> \<not> (is_space c \<and> is_space d)) \<and> no_ws_run xs"
  by (cases xs) auto

lemma sub_ws_runs_head:
  "\<not> is_space d \<Longrightarrow> sub_ws_runs (d # ds) = d # sub_ws_runs ds"
  by simp

lemma no_ws_run_sub_ws_runs: "no_ws_run (sub_ws_runs s)"
proof (induction s rule: sub_ws_runs.induct)
  case 1
  then show ?case by simp
next
  case (2 c cs)
  show ?case
  proof (cases "is_space c")
    case True
    note sp = this
    show ?thesis
    proof (cases "dropWhile is_space cs")
      case Nil
      with sp have "sub_ws_runs (c # cs) = [SP]" by (simp del: dropWhile_eq_Nil_conv)
      then show ?thesis by simp
    next
      case (Cons d ds)
      then have nd: "\<not> is_space d" by (metis hd_dropWhile list.sel(1) list.distinct(1))
      from 2(1)[OF sp] have "no_ws_run (sub_ws_runs (d # ds))" using Cons by simp
      with sp nd Cons show ?thesis by simp
    qed
  next
    case False
    with 2 show ?thesis by (simp add: no_ws_run_Cons split: list.splits)
  qed
qed

lemma sub_ws_runs_id:
  "no_ws_run s \<Longrightarrow> \<forall>c\<in>set s. is_space c \<longrightarrow> c = SP \<Longrightarrow> sub_ws_runs s = s"
proof (induction s rule: no_ws_run.induct)
  case 1
  then show ?case by simp
next
  case (2 c)
  then show ?case by auto
next
  case (3 c d cs)
  show ?case
  proof (cases "is_space c")
    case True
    with 3 have nd: "\<not> is_space d" and c: "c = SP" by auto
    from 3 have "sub_ws_runs (d # cs) = d # cs" by simp
    with True nd c show ?thesis by simp
  next
    case False
    with 3 show ?thesis by simp
  qed
qed

lemma no_ws_run_append: "no_ws_run (xs @ ys) \<Longrightarrow> no_ws_run xs \<and> no_ws_run ys"
proof (induction xs rule: no_ws_run.induct)
  case 1
  then show ?case by simp
next
  case (2 c)
  then show ?case by (simp add: no_ws_run_Cons)
next
  case (3 c d cs)
  then show ?case by simp
qed

lemma rstrip_decomp: "s = rstrip s @ rev (takeWhile is_space (rev s))"
  unfolding rstrip_def by (metis rev_append rev_rev_ident takeWhile_dropWhile_id)

lemma no_ws_run_strip: "no_ws_run s \<Longrightarrow> no_ws_run (strip s)"
proof -
  assume a: "no_ws_run s"
  have "s = takeWhile is_space s @ lstrip s" by (simp add: lstrip_def)
  with a have "no_ws_run (lstrip s)" by (metis no_ws_run_append)
  then show ?thesis unfolding strip_def by (metis no_ws_run_append rstrip_decomp)
qed

lemma set_strip: "set (strip s) \<subseteq> set s"
proof -
  have "set (rstrip t) \<subseteq> set t" for t
    unfolding rstrip_def using set_dropWhileD by fastforce
  moreover have "set (lstrip s) \<subseteq> set s"
    unfolding lstrip_def using set_dropWhileD by fastforce
  ultimately show ?thesis unfolding strip_def by blast
qed

lemma trimmed_strip: "trimmed (strip s)"
proof (cases "strip s")
  case Nil
  then show ?thesis by (simp add: trimmed_def)
next
  case (Cons c cs)
  let ?l = "lstrip s"
  have ne: "rev (dropWhile is_space (rev ?l)) \<noteq> []" using Cons by (simp add: strip_def rstrip_def)
  then have ne': "dropWhile is_space (rev ?l) \<noteq> []" by simp
  have lst: "\<not> is_space (last (strip s))"
    using ne' by (simp add: strip_def rstrip_def last_rev hd_dropWhile)
  have lne: "?l \<noteq> []" using ne' by auto
  then have h: "\<not> is_space (hd ?l)" by (simp add: lstrip_def hd_dropWhile)
  have "?l = strip s @ rev (takeWhile is_space (rev ?l))"
    unfolding strip_def by (rule rstrip_decomp)
  with Cons have "hd ?l = c" by (metis hd_append2 list.sel(1) list.distinct(1))
  with h lst Cons show ?thesis by (simp add: trimmed_def)
qed

lemma strip_id: "trimmed s \<Longrightarrow> strip s = s"
proof (cases s)
  case Nil
  then show ?thesis by (simp add: strip_def lstrip_def rstrip_def)
next
  case (Cons c cs)
  assume "trimmed s"
  with Cons have a: "\<not> is_space c" "\<not> is_space (last s)" by (simp_all add: trimmed_def)
  have "lstrip s = s" using Cons a by (simp add: lstrip_def)
  moreover have "rstrip s = s"
  proof -
    have "hd (rev s) = last s" using Cons by (simp add: hd_rev)
    with a(2) have "dropWhile is_space (rev s) = rev s"
      by (simp add: dropWhile_eq_self_iff)
    then show ?thesis by (simp add: rstrip_def)
  qed
  ultimately show ?thesis by (simp add: strip_def)
qed


lemma clean_str_chars:
  assumes "c \<in> set (clean_str cls s)"
  shows "(cls c \<and> \<not> is_space c) \<or> c = SP"
proof -
  from assms have m: "c \<in> set (sub_ws_runs (sub_not_in cls s))"
    unfolding clean_str_def using set_strip by blast
  then have "c \<in> set (sub_not_in cls s) \<or> c = SP" by (rule set_sub_ws_runs)
  then have "cls c \<or> c = SP" using set_sub_not_in by blast
  moreover have "is_space c \<Longrightarrow> c = SP" using m by (rule space_sub_ws_runs)
  ultimately show ?thesis by blast
qed

lemma clean_str_no_ws_run: "no_ws_run (clean_str cls s)"
  unfolding clean_str_def by (rule no_ws_run_strip) (rule no_ws_run_sub_ws_runs)

lemma clean_str_trimmed: "trimmed (clean_str cls s)"
  unfolding clean_str_def by (rule trimmed_strip)

lemma clean_str_fixed:
  assumes sp: "cls SP"
    and chars: "\<forall>c\<in>set r. (cls c \<and> \<not> is_space c) \<or> c = SP"
    and runs: "no_ws_run r" and trim: "trimmed r"
  shows "clean_str cls r = r"
proof -
  from sp chars have "list_all cls r" by (auto simp: list_all_iff)
  then have 1: "sub_not_in cls r = r" by (rule sub_not_in_id)
  from chars have "\<forall>c\<in>set r. is_space c \<longrightarrow> c = SP" by blast
  with runs have 2: "sub_ws_runs r = r" by (rule sub_ws_runs_id)
  from trim have 3: "strip r = r" by (rule strip_id)
  from 1 2 3 show ?thesis by (simp add: clean_str_def)
qed

lemma clean_str_idem:
  assumes "cls SP"
  shows "clean_str cls (clean_str cls s) = clean_str cls s"
  using assms clean_str_chars clean_str_no_ws_run clean_str_trimmed
  by (intro clean_str_fixed) blast+

lemma class_en_SP: "class_en SP"
  by (simp add: class_en_def is_space_SP)

lemma class_bn_SP: "class_bn SP"
  by (simp add: class_bn_def is_space_SP)

lemma trimmed_Nil: "trimmed []"
  by (simp add: trimmed_def)

lemma clean_str_en_allowed: "list_all (\<lambda>c. keep_en c \<or> c = SP) (clean_str class_en s)"
  using clean_str_chars [of _ class_en s] by (auto simp: list_all_iff class_en_def)

lemma clean_str_bn_allowed: "list_all (\<lambda>c. keep_bn c \<or> c = SP) (clean_str class_bn s)"
  using clean_str_chars [of _ class_bn s] by (auto simp: list_all_iff class_bn_def)

lemma clean_str_Nil: "clean_str cls [] = []"
  by (simp add: clean_str_def sub_not_in_def strip_def lstrip_def rstrip_def)

section \<open>Properties of the extractors and the request handlers\<close>

lemmas char_defs = ustr_def is_space_def in_range_def is_upper_def is_lower_def is_digit_def
  is_alpha_def SP_def

lemmas rx_defs = email_rx_def phone_rx_def email_local_def email_domain_def

lemmas strip_defs = strip_def lstrip_def rstrip_def

lemma strip_Nil: "strip [] = []"
  by (simp add: strip_defs)

lemma strip_all_space:
  assumes "\<forall>c\<in>set t. is_space c"
  shows "strip t = []"
proof -
  from assms have "dropWhile is_space t = []" by simp
  then show ?thesis by (simp add: strip_defs del: dropWhile_eq_Nil_conv)
qed

lemma extract_emails_Nil: "extract_emails [] = {}"
  by (simp add: extract_emails_def rx_defs)

lemma extract_phones_Nil: "extract_phones [] = {}"
  by (simp add: extract_phones_def rx_defs)

lemma extract_addresses_Nil: "extract_addresses [] = {}"
  by (simp add: extract_addresses_def is_address_def address_keywords_def)

lemma extract_numbers_Nil: "extract_numbers [] = {}"
  by (simp add: extract_numbers_def)

lemmas extract_Nil = extract_emails_Nil extract_phones_Nil extract_addresses_Nil
  extract_numbers_Nil

lemma clean_text_regex_Some: "clean_text_regex (Some s) = Inr (clean_str class_en s)"
  by (simp add: clean_text_regex_def clean_str_Nil)

lemma sub_ws_runs_all_space:
  "\<forall>c\<in>set s. is_space c \<Longrightarrow> \<forall>c\<in>set (sub_ws_runs s). is_space c"
  using set_sub_ws_runs is_space_SP by blast

lemma clean_str_no_keep:
  assumes "\<forall>c\<in>set s. \<not> keep_en c"
  shows "clean_str class_en s = []"
proof -
  have "\<forall>c\<in>set (sub_not_in class_en s). is_space c"
    using assms is_space_SP by (auto simp: sub_not_in_def class_en_def)
  then have "\<forall>c\<in>set (sub_ws_runs (sub_not_in class_en s)). is_space c"
    by (rule sub_ws_runs_all_space)
  then show ?thesis unfolding clean_str_def by (rule strip_all_space)
qed

lemma respond_empty:
  assumes "clean_str class_en text_input = []"
  shows "respond Map.empty [] text_input =
     Inr \<lparr>status = 200,
          body = Result Map.empty []
            \<lparr>emails = {}, phones = {}, addresses = {}, numbers = {}\<rparr>\<rparr>"
proof -
  have sp: "strip [SP] = []" by (simp add: strip_defs is_space_SP)
  show ?thesis
    by (simp add: respond_def clean_text_regex_Some assms sp clean_str_Nil extract_Nil)
qed


lemma ocr_block_Inl:
  assumes "easy_readtext env (disk w p) = Inl e"
  shows "ocr_block env p w = (Inl e, log_call EasyOCR w)"
  using assms by (simp add: ocr_block_def easy_raw_text_def)




lemma process_image_easy_fails:
  assumes f: "files_image req = Some f" "filename f \<noteq> []" "allowed_extension (filename f)"
    and fs: "makedirs_error env (ustr ''uploads'') = None"
      "save_error env (path_join (ustr ''uploads'') (filename f)) = None"
    and easy: "easy_readtext env (Some (content f)) = Inl e"
  shows "process_visiting_card env req w =
           (Inr \<lparr>status = 500, body = Error (ustr ''OCR failed: '' @ str_of env e)\<rparr>,
            w\<lparr>disk := (disk w)(path_join (ustr ''uploads'') (filename f) \<mapsto> content f),
              invoked := invoked w @ [EasyOCR]\<rparr>)"
proof -
  let ?p = "path_join (ustr ''uploads'') (filename f)"
  let ?w1 = "w\<lparr>disk := (disk w)(?p \<mapsto> content f)\<rparr>"
  have sv: "save env f ?p w = (Inr (), ?w1)" using fs(2) by (simp add: save_def)
  have "disk ?w1 ?p = Some (content f)" by simp
  with easy have "easy_readtext env (disk ?w1 ?p) = Inl e" by simp
  then have "ocr_block env ?p ?w1 = (Inl e, log_call EasyOCR ?w1)" by (rule ocr_block_Inl)
  with f fs(1) sv show ?thesis
    by (simp add: process_visiting_card_def has_image_def Let_def os_makedirs_def log_call_def)
qed



text \<open>
  What \<open>os.makedirs\<close> or \<open>image_file.save\<close> raises leaves either handler, before any engine
  runs and with the disk unchanged; so it is for the upload \<open>a/b.png\<close> where the directory
  \<open>uploads/a\<close> does not exist.
\<close>

lemma save_failure_leaves_handler:
  assumes "files_image req = Some f" and "filename f \<noteq> []" and "allowed_extension (filename f)"
    and "makedirs_error env (ustr ''uploads'') = None"
    and "save_error env (path_join (ustr ''uploads'') (filename f)) = Some e"
  shows "process_visiting_card env req w = (Inl e, w)"
    and "process_document env req w = (Inl e, w)"
  using assms
  by (simp_all add: process_visiting_card_def process_document_def has_image_def Let_def
      os_makedirs_def save_def)

lemma makedirs_failure_leaves_handler:
  assumes "files_image req = Some f" and "filename f \<noteq> []" and "allowed_extension (filename f)"
    and "makedirs_error env (ustr ''uploads'') = Some e"
  shows "process_visiting_card env req w = (Inl e, w)"
    and "process_document env req w = (Inl e, w)"
  using assms
  by (simp_all add: process_visiting_card_def process_document_def has_image_def Let_def
      os_makedirs_def)

lemma nested_upload_not_saved:
  "process_visiting_card no_subdirectory nested_request empty_world =
     (Inl (FileNotFoundError (ustr ''uploads/a/b.png'')), empty_world)"
proof -
  let ?f = "\<lparr>filename = ustr ''a/b.png'', content = [137, 80, 78, 71]\<rparr>"
  have 1: "files_image nested_request = Some ?f" by (simp add: nested_request_def)
  have 2: "filename ?f \<noteq> []" by (simp add: ustr_def)
  have 3: "allowed_extension (filename ?f)"
    by (simp add: allowed_extension_def endswith_def lower_def char_defs)
  have 4: "makedirs_error no_subdirectory (ustr ''uploads'') = None"
    by (simp add: no_subdirectory_def tesseract_fails_def)
  have p: "path_join (ustr ''uploads'') (filename ?f) = ustr ''uploads/a/b.png''"
    by (simp add: path_join_def char_defs)
  have 5: "save_error no_subdirectory (path_join (ustr ''uploads'') (filename ?f)) =
           Some (FileNotFoundError (ustr ''uploads/a/b.png''))"
    unfolding p by (simp add: no_subdirectory_def)
  from save_failure_leaves_handler(1) [OF 1 2 3 4 5] show ?thesis .
qed

lemmas sample_defs = card_png_def image_request_def empty_request_def empty_world_def
  easyocr_fails_def tesseract_paddle_fail_def tesseract_fails_def message_def

lemma allowed_card: "allowed_extension (ustr ''card.png'')"
  by (simp add: allowed_extension_def endswith_def lower_def char_defs)

lemma path_card: "path_join (ustr ''uploads'') (ustr ''card.png'') = ustr ''uploads/card.png''"
  by (simp add: path_join_def char_defs)

lemma card_request:
  "files_image image_request = Some card_png"
  "filename card_png \<noteq> []"
  "allowed_extension (filename card_png)"
  using allowed_card by (simp_all add: image_request_def card_png_def ustr_def)

lemma card_path: "path_join (ustr ''uploads'') (filename card_png) = ustr ''uploads/card.png''"
  using path_card by (simp add: card_png_def)

lemma sample_writable:
  "makedirs_error easyocr_fails d = None" "save_error easyocr_fails p = None"
  "makedirs_error tesseract_paddle_fail d = None" "save_error tesseract_paddle_fail p = None"
  "makedirs_error tesseract_fails d = None" "save_error tesseract_fails p = None"
  by (simp_all add: easyocr_fails_def tesseract_paddle_fail_def tesseract_fails_def)

lemma ocr_failed_msg:
  "ustr ''OCR failed: '' @ ustr ''cannot read image'' = ustr ''OCR failed: cannot read image''"
  by (simp add: ustr_def)

lemma example_text_clean:
  "clean_str class_en (ustr ''Email: x@y.com, Phone: 01712345678'') =
     ustr ''Email: x@y.com, Phone: 01712345678''"
  by (simp add: clean_str_def sub_not_in_def class_en_def keep_en_def strip_defs char_defs)

lemma example_text_strip:
  "strip (ustr ''Email: x@y.com, Phone: 01712345678'') =
     ustr ''Email: x@y.com, Phone: 01712345678''"
  "strip ([] @ [SP] @ ustr ''Email: x@y.com, Phone: 01712345678'') =
     ustr ''Email: x@y.com, Phone: 01712345678''"
  by (simp_all add: strip_defs char_defs)

lemma example_text_extract:
  "extract_emails (ustr ''Email: x@y.com, Phone: 01712345678'') = {ustr ''x@y.com''}"
  "extract_phones (ustr ''Email: x@y.com, Phone: 01712345678'') = {ustr ''01712345678''}"
  "extract_addresses (ustr ''Email: x@y.com, Phone: 01712345678'') = {}"
  "extract_numbers (ustr ''Email: x@y.com, Phone: 01712345678'') = {ustr ''01712345678''}"
     apply (simp add: extract_emails_def char_defs rx_defs)
    apply (simp add: extract_phones_def char_defs rx_defs)
   apply (simp add: extract_addresses_def is_address_def address_keywords_def lower_def
      strip_defs char_defs)
  apply (simp add: extract_numbers_def char_defs)
  done

section \<open>Claims about the text normalizer\<close>

text \<open>
  Claim C2. The text normalizer is idempotent in both variants: cleaning a cleaned text
  returns it unchanged, for every string \<open>x\<close>.
\<close>

theorem clean_text_regex_idempotent:
  "(\<exists>r. clean_text_regex (Some x) = Inr r \<and> clean_text_regex (Some r) = Inr r) \<and>
   (\<exists>r. clean_text_regex_bn (Some x) = Inr r \<and> clean_text_regex_bn (Some r) = Inr r)"
proof
  show "\<exists>r. clean_text_regex (Some x) = Inr r \<and> clean_text_regex (Some r) = Inr r"
    by (simp add: clean_text_regex_def clean_str_idem [of class_en, OF class_en_SP])
  show "\<exists>r. clean_text_regex_bn (Some x) = Inr r \<and> clean_text_regex_bn (Some r) = Inr r"
    by (simp add: clean_text_regex_bn_def clean_str_idem [of class_bn, OF class_bn_SP])
qed

text \<open>
  Claim C5. In both variants and for every string \<open>T\<close>, every character of the cleaned text
  is an explicit member of the variant's allow-list or the ASCII space, no two whitespace
  characters are adjacent, and the text neither starts nor ends with whitespace.
\<close>

theorem clean_text_regex_output_shape:
  "(\<exists>r. clean_text_regex (Some T) = Inr r \<and>
        list_all (\<lambda>c. keep_en c \<or> c = SP) r \<and> no_ws_run r \<and> trimmed r) \<and>
   (\<exists>r. clean_text_regex_bn (Some T) = Inr r \<and>
        list_all (\<lambda>c. keep_bn c \<or> c = SP) r \<and> no_ws_run r \<and> trimmed r)"
proof
  show "\<exists>r. clean_text_regex (Some T) = Inr r \<and>
        list_all (\<lambda>c. keep_en c \<or> c = SP) r \<and> no_ws_run r \<and> trimmed r"
    by (simp add: clean_text_regex_def clean_str_en_allowed clean_str_no_ws_run
        clean_str_trimmed trimmed_Nil)
  show "\<exists>r. clean_text_regex_bn (Some T) = Inr r \<and>
        list_all (\<lambda>c. keep_bn c \<or> c = SP) r \<and> no_ws_run r \<and> trimmed r"
    by (simp add: clean_text_regex_bn_def clean_str_bn_allowed clean_str_no_ws_run
        clean_str_trimmed)
qed

text \<open>
  Claim C6, as stated, promises the empty string for an absent input in both variants.
  The bilingual variant has no test for an absent input: \<open>re.sub\<close> raises \<open>TypeError\<close>.
\<close>

theorem clean_text_regex_bn_None_raises:
  "clean_text_regex_bn None = Inl TypeError \<and> clean_text_regex_bn None \<noteq> Inr []"
  by (simp add: clean_text_regex_bn_def)

text \<open>
  Claim C6, amended. The base variant never raises, on a string or on \<open>None\<close>, and returns
  the empty string for both \<open>None\<close> and the empty string. The bilingual variant never raises
  on a string and returns the empty string for the empty string; on \<open>None\<close> it raises
  \<open>TypeError\<close>.
\<close>

theorem clean_text_regex_total:
  "(\<exists>r. clean_text_regex t = Inr r) \<and>
   clean_text_regex None = Inr [] \<and> clean_text_regex (Some []) = Inr [] \<and>
   (\<exists>r. clean_text_regex_bn (Some s) = Inr r) \<and>
   clean_text_regex_bn (Some []) = Inr [] \<and>
   clean_text_regex_bn None = Inl TypeError"
  by (simp add: clean_text_regex_def clean_text_regex_bn_def clean_str_Nil split: option.splits)

section \<open>Claims about the extractors and the request handlers\<close>




text \<open>
  Claim C3, as stated, has the extractor yield the \<open>Dhaka\<close> fragment. The fragment between
  the first two commas is \<open>" Dhaka"\<close>, six characters long, and the test asks for more than
  ten: it is not yielded, stripped or not.
\<close>

theorem extract_addresses_no_dhaka:
  "ustr ''Dhaka'' \<notin> extract_addresses (ustr ''123 Gulshan Road, Dhaka, Bangladesh, short'') \<and>
   ustr '' Dhaka'' \<notin> extract_addresses (ustr ''123 Gulshan Road, Dhaka, Bangladesh, short'')"
  by (simp add: extract_addresses_def is_address_def address_keywords_def lower_def
      strip_defs char_defs)

text \<open>
  Claim C3, amended. For the input \<open>"123 Gulshan Road, Dhaka, Bangladesh, short"\<close> the
  address extractor yields exactly \<open>"123 Gulshan Road"\<close> and \<open>"Bangladesh"\<close>: of the four
  fragments cut at the commas, these two are longer than ten characters and contain a
  keyword; \<open>" Dhaka"\<close> (six characters) and \<open>" short"\<close> do not qualify.
\<close>

theorem extract_addresses_example:
  "extract_addresses (ustr ''123 Gulshan Road, Dhaka, Bangladesh, short'') =
     {ustr ''123 Gulshan Road'', ustr ''Bangladesh''} \<and>
   re_split (\<lambda>c. c = of_char CHR '','' \<or> c = of_char CHR ''.'')
       (ustr ''123 Gulshan Road, Dhaka, Bangladesh, short'') =
     [ustr ''123 Gulshan Road'', ustr '' Dhaka'', ustr '' Bangladesh'', ustr '' short''] \<and>
   is_address (ustr ''123 Gulshan Road'') \<and> is_address (ustr '' Bangladesh'') \<and>
   length (ustr '' Dhaka'') = 6 \<and> \<not> is_address (ustr '' Dhaka'') \<and>
   \<not> is_address (ustr '' short'')"
  by (simp add: extract_addresses_def is_address_def address_keywords_def lower_def
      strip_defs char_defs)

text \<open>
  Claim C4. A request to \<open>/process\<close> with only the text
  \<open>"Email: x@y.com, Phone: 01712345678"\<close> and no image is answered, whatever the engines
  and the disk, with status 200, an empty result map, the cleaned input text as combined
  text (the text is its own cleaned form), the one email \<open>x@y.com\<close> and the phone
  \<open>01712345678\<close>; the state is unchanged.
\<close>

theorem text_only_request_example:
  "process_visiting_card env
       \<lparr>form_text = Some (ustr ''Email: x@y.com, Phone: 01712345678''), files_image = None\<rparr> w =
     (Inr \<lparr>status = 200,
           body = Result Map.empty (ustr ''Email: x@y.com, Phone: 01712345678'')
             \<lparr>emails = {ustr ''x@y.com''}, phones = {ustr ''01712345678''},
              addresses = {}, numbers = {ustr ''01712345678''}\<rparr>\<rparr>, w) \<and>
   clean_text_regex (Some (ustr ''Email: x@y.com, Phone: 01712345678'')) =
     Inr (ustr ''Email: x@y.com, Phone: 01712345678'')"
proof -
  let ?t = "ustr ''Email: x@y.com, Phone: 01712345678''"
  have ne: "?t \<noteq> []" by (simp add: ustr_def)
  have "respond Map.empty [] ?t =
     Inr \<lparr>status = 200,
          body = Result Map.empty ?t
             \<lparr>emails = {ustr ''x@y.com''}, phones = {ustr ''01712345678''},
              addresses = {}, numbers = {ustr ''01712345678''}\<rparr>\<rparr>"
    using ne example_text_strip(2)
    by (simp add: respond_def clean_text_regex_Some example_text_clean example_text_extract)
  then show ?thesis
    using ne by (simp add: process_visiting_card_def has_image_def example_text_strip(1)
        clean_text_regex_Some example_text_clean)
qed

text \<open>
  Claim C7. A request with no text field and no image file is answered 400 with an error
  body, and the state is the one before the request: no engine has been invoked.
\<close>

theorem no_input_rejected:
  assumes "form_text req = None" and "\<not> has_image req"
  shows "process_visiting_card env req w =
           (Inr \<lparr>status = 400,
                 body = Error (ustr ''No input provided. Submit an image or text.'')\<rparr>, w)
         \<and> invoked (snd (process_visiting_card env req w)) = invoked w"
  using assms by (simp add: process_visiting_card_def strip_Nil)

text \<open>
The rejection of claim C7 on the empty request.
\<close>

theorem no_input_rejected_witness:
  "form_text empty_request = None \<and> \<not> has_image empty_request \<and>
   process_visiting_card easyocr_fails empty_request empty_world =
     (Inr \<lparr>status = 400,
           body = Error (ustr ''No input provided. Submit an image or text.'')\<rparr>, empty_world) \<and>
   invoked (snd (process_visiting_card easyocr_fails empty_request empty_world)) = []"
proof -
  have h1: "form_text empty_request = None" by (simp add: empty_request_def)
  have h2: "\<not> has_image empty_request" by (simp add: empty_request_def has_image_def)
  from no_input_rejected [OF h1 h2, of easyocr_fails empty_world] h1 h2
  show ?thesis by (simp add: empty_world_def)
qed

text \<open>
  Claim C8 holds that the saved upload is deleted on every exit path of the image branch.
  \<open>os.remove\<close> is the last statement inside the \<open>try\<close>; when EasyOCR raises, the
  \<open>except\<close> branch returns 500 and the file \<open>uploads/card.png\<close> stays on the disk.
\<close>

theorem upload_left_on_ocr_failure:
  "process_visiting_card easyocr_fails image_request empty_world =
     (Inr \<lparr>status = 500, body = Error (ustr ''OCR failed: cannot read image'')\<rparr>,
      \<lparr>disk = [ustr ''uploads/card.png'' \<mapsto> [137, 80, 78, 71]], invoked = [EasyOCR]\<rparr>)"
proof -
  have e: "easy_readtext easyocr_fails (Some (content card_png)) =
             Inl (EngineError (ustr ''cannot read image''))"
    by (simp add: easyocr_fails_def)
  have m: "str_of easyocr_fails (EngineError (ustr ''cannot read image'')) =
             ustr ''cannot read image''"
    by (simp add: easyocr_fails_def message_def)
  have c: "content card_png = [137, 80, 78, 71]" by (simp add: card_png_def)
  from process_image_easy_fails [OF card_request sample_writable(1,2) e, of empty_world]
  show ?thesis
    by (simp add: m ocr_failed_msg card_path c empty_world_def)
qed

text \<open>
  Claim C9. In the base variant the text is stripped before the test for input: a request
  whose text is whitespace only, with no image file, is answered 400 with the same body and
  state as the same request without a text field.
\<close>

theorem whitespace_text_rejected:
  assumes "form_text req = Some t" and "\<forall>c\<in>set t. is_space c" and "\<not> has_image req"
  shows "process_visiting_card env req w =
           (Inr \<lparr>status = 400,
                 body = Error (ustr ''No input provided. Submit an image or text.'')\<rparr>, w)
         \<and> process_visiting_card env req w =
           process_visiting_card env (req\<lparr>form_text := None\<rparr>) w"
  using assms by (simp add: process_visiting_card_def strip_Nil strip_all_space has_image_def)

text \<open>
The rejection of claim C9 on a text of a space, a tab, a line feed and U+00A0.
\<close>

theorem whitespace_text_rejected_witness:
  "list_all is_space [32, 9, 10, 160] \<and>
   process_visiting_card easyocr_fails
       \<lparr>form_text = Some [32, 9, 10, 160], files_image = None\<rparr> empty_world =
     (Inr \<lparr>status = 400,
           body = Error (ustr ''No input provided. Submit an image or text.'')\<rparr>, empty_world) \<and>
   process_visiting_card easyocr_fails
       \<lparr>form_text = Some [32, 9, 10, 160], files_image = None\<rparr> empty_world =
     process_visiting_card easyocr_fails empty_request empty_world"
proof -
  let ?req = "\<lparr>form_text = Some [32, 9, 10, 160], files_image = None\<rparr>"
  have h1: "form_text ?req = Some [32, 9, 10, 160]" by simp
  have h2: "\<forall>c\<in>set [32, 9, 10, 160]. is_space c" by (simp add: is_space_def in_range_def)
  have h3: "\<not> has_image ?req" by (simp add: has_image_def)
  have r: "?req\<lparr>form_text := None\<rparr> = empty_request" by (simp add: empty_request_def)
  have h2': "list_all is_space [32, 9, 10, 160]" using h2 by (simp add: list_all_iff)
  from whitespace_text_rejected [OF h1 h2 h3, of easyocr_fails empty_world] h2'
  show ?thesis unfolding r by blast
qed

text \<open>
  Claim C10. In the base variant, a request with no image whose text is not empty after
  stripping and has no character among the explicit members of the allow-list passes the
  test for input and is answered 200 with the empty combined text and four empty
  collections.
\<close>

theorem disallowed_text_ok:
  assumes "form_text req = Some t" and "\<not> has_image req"
    and "strip t \<noteq> []" and "\<forall>c\<in>set t. \<not> keep_en c"
  shows "process_visiting_card env req w =
           (Inr \<lparr>status = 200,
                 body = Result Map.empty []
                   \<lparr>emails = {}, phones = {}, addresses = {}, numbers = {}\<rparr>\<rparr>, w)"
proof -
  have "\<forall>c\<in>set (strip t). \<not> keep_en c" using assms(4) set_strip by blast
  then have "clean_str class_en (strip t) = []" by (rule clean_str_no_keep)
  then have "respond Map.empty [] (strip t) =
     Inr \<lparr>status = 200,
          body = Result Map.empty []
            \<lparr>emails = {}, phones = {}, addresses = {}, numbers = {}\<rparr>\<rparr>"
    by (rule respond_empty)
  with assms(1-3) show ?thesis by (simp add: process_visiting_card_def)
qed

text \<open>
The answer of claim C10 on the text \<open>"#! $"\<close>.
\<close>

theorem disallowed_text_ok_witness:
  "strip (ustr ''#! $'') \<noteq> [] \<and> list_all (\<lambda>c. \<not> keep_en c) (ustr ''#! $'') \<and>
   process_visiting_card easyocr_fails
       \<lparr>form_text = Some (ustr ''#! $''), files_image = None\<rparr> empty_world =
     (Inr \<lparr>status = 200,
           body = Result Map.empty []
             \<lparr>emails = {}, phones = {}, addresses = {}, numbers = {}\<rparr>\<rparr>, empty_world)"
proof -
  let ?req = "\<lparr>form_text = Some (ustr ''#! $''), files_image = None\<rparr>"
  have h1: "form_text ?req = Some (ustr ''#! $'')" by simp
  have h2: "\<not> has_image ?req" by (simp add: has_image_def)
  have h3: "strip (ustr ''#! $'') \<noteq> []" by (simp add: strip_defs char_defs)
  have h4: "\<forall>c\<in>set (ustr ''#! $''). \<not> keep_en c" by (simp add: keep_en_def char_defs)
  have h4': "list_all (\<lambda>c. \<not> keep_en c) (ustr ''#! $'')" using h4 by (simp add: list_all_iff)
  from disallowed_text_ok [OF h1 h2 h3 h4, of easyocr_fails empty_world] h3 h4'
  show ?thesis by blast
qed

end
